theory Spec2Isabelle
  imports Main "HOL-Library.Sublist" "HOL-Library.AList"
begin

section \<open>WordPress SEO optimizer: a shallow embedding of \<open>src/main.py\<close>\<close>

text \<open>
  The program is one Python class, \<open>WordPressSEOOptimizer\<close>. It talks to two outside
  services (the WordPress REST API through \<open>requests\<close>, the Gemini text backend through
  \<open>generate_content\<close>) and does some string work in between.

  Conventions of the model:
  \<^item> A Python string is a list of Unicode code points, so \<open>len\<close>, slicing, \<open>in\<close> and
    \<open>replace\<close> count and compare code points as Python does. \<open>str.strip\<close> is written
    out. \<open>str.lower\<close>, whose case tables belong to Python and not to the program, is a
    parameter: a function from strings to strings in the \<open>env\<close> record, as are
    \<open>json.loads\<close> and \<open>html.unescape\<close>.
  \<^item> Every value that arrives as JSON is a \<open>json\<close> value, and every Python operation
    on it that can raise is a function into \<open>exn + 'a\<close>.
  \<^item> The outside services are oracles in the \<open>env\<close> record: each is given the history
    of earlier calls, so a service may answer every call differently. Each call is appended
    to a log in the \<open>world\<close>, which also holds \<open>self.log_data\<close> and \<open>self.report_data\<close>.
  \<^item> \<open>print\<close> output and \<open>time.sleep\<close> are left out.
\<close>

subsection \<open>Strings\<close>

type_synonym codepoint = nat
type_synonym str = "codepoint list"

text \<open>The string literals of the source are ASCII; \<open>ascii\<close> gives their code points.\<close>
definition cp :: "char \<Rightarrow> codepoint" where
  "cp c = of_char c"

definition ascii :: "string \<Rightarrow> str" where
  "ascii s = map cp s"

text \<open>
  The code points that \<open>str.strip()\<close> removes, those for which \<open>str.isspace\<close> holds:
  U+0009 to U+000D, U+001C to U+0020, U+0085, U+00A0, U+1680, U+2000 to U+200A, U+2028,
  U+2029, U+202F, U+205F and U+3000.
\<close>
definition is_space :: "codepoint \<Rightarrow> bool" where
  "is_space c =
     ((9 \<le> c \<and> c \<le> 13) \<or> (28 \<le> c \<and> c \<le> 32) \<or> c = 133 \<or> c = 160 \<or> c = 5760
      \<or> (8192 \<le> c \<and> c \<le> 8202) \<or> c = 8232 \<or> c = 8233 \<or> c = 8239 \<or> c = 8287
      \<or> c = 12288)"

text \<open>\<open>s.strip()\<close>\<close>
definition strip :: "str \<Rightarrow> str" where
  "strip s = rev (dropWhile is_space (rev (dropWhile is_space s)))"

text \<open>\<open>sub in s\<close> for two strings: \<open>sub\<close> occurs in \<open>s\<close> as a contiguous block.\<close>
fun str_in :: "str \<Rightarrow> str \<Rightarrow> bool" where
  "str_in sub [] = (sub = [])"
| "str_in sub (c # cs) = (prefix sub (c # cs) \<or> str_in sub cs)"

text \<open>\<open>s[:k]\<close>: a negative bound counts from the end.\<close>
definition slice_to :: "str \<Rightarrow> int \<Rightarrow> str" where
  "slice_to s k = (if k < 0 then take (nat (int (length s) + k)) s else take (nat k) s)"

text \<open>
  The split of \<open>s\<close> at the first occurrence of \<open>pat\<close>: the text before it and the text
  after it. \<open>None\<close> when \<open>pat\<close> does not occur.
\<close>
fun split_first :: "str \<Rightarrow> str \<Rightarrow> (str \<times> str) option" where
  "split_first pat [] = (if pat = [] then Some ([], []) else None)"
| "split_first pat (c # cs) =
     (if prefix pat (c # cs) then Some ([], drop (length pat) (c # cs))
      else map_option (\<lambda>(a, b). (c # a, b)) (split_first pat cs))"

text \<open>
  \<open>re.sub(r'<[^>]+>', '', s)\<close>: scanning from the left, a \<open><\<close> followed by at least one
  character other than \<open>>\<close> and then a \<open>>\<close> is removed up to and including that \<open>>\<close>
  (the class \<open>[^>]\<close> also takes \<open><\<close> and newlines); anything else is kept.
\<close>
function strip_tags :: "str \<Rightarrow> str" where
  "strip_tags [] = []"
| "strip_tags (c # cs) =
     (if c = cp CHR ''<'' \<and> takeWhile (\<lambda>x. x \<noteq> cp CHR ''>'') cs \<noteq> []
         \<and> dropWhile (\<lambda>x. x \<noteq> cp CHR ''>'') cs \<noteq> []
      then strip_tags (tl (dropWhile (\<lambda>x. x \<noteq> cp CHR ''>'') cs))
      else c # strip_tags cs)"
  by pat_completeness auto
termination
proof (relation "measure length")
  fix c :: codepoint and cs :: str
  have "length (tl (dropWhile (\<lambda>x. x \<noteq> cp CHR ''>'') cs)) \<le> length cs"
    using length_dropWhile_le [of "\<lambda>x. x \<noteq> cp CHR ''>''" cs] by simp
  then show "(tl (dropWhile (\<lambda>x. x \<noteq> cp CHR ''>'') cs), c # cs) \<in> measure length"
    by simp
qed simp_all

text \<open>
  \<open>re.search(r'<p>(.*?)</p>', content, re.DOTALL)\<close>, group 1: the text between the
  first \<open><p>\<close> and the first \<open></p>\<close> after it. \<open>None\<close> when there is no match.
\<close>
definition first_paragraph :: "str \<Rightarrow> str option" where
  "first_paragraph content =
     (case split_first (ascii ''<p>'') content of
        None \<Rightarrow> None
      | Some (before, rest) \<Rightarrow>
          (case split_first (ascii ''</p>'') rest of
             None \<Rightarrow> None
           | Some (para, after) \<Rightarrow> Some para))"

text \<open>
  \<open>s.replace(old, new)\<close>: every occurrence of \<open>old\<close>, left to right and not overlapping.
  For the empty \<open>old\<close> Python puts \<open>new\<close> before every character and at the end.
\<close>
function replace_from :: "str \<Rightarrow> str \<Rightarrow> str \<Rightarrow> str" where
  "replace_from old new [] = []"
| "replace_from old new (c # cs) =
     (if old \<noteq> [] \<and> prefix old (c # cs)
      then new @ replace_from old new (drop (length old) (c # cs))
      else c # replace_from old new cs)"
  by pat_completeness auto
termination
  by (relation "measure (\<lambda>(old, new, s). length s)") auto

definition replace :: "str \<Rightarrow> str \<Rightarrow> str \<Rightarrow> str" where
  "replace s old new =
     (if old = [] then new @ concat (map (\<lambda>c. c # new) s) else replace_from old new s)"

subsection \<open>JSON values and the Python operations on them\<close>

text \<open>
  What \<open>response.json()\<close> and \<open>json.loads\<close> return. \<open>JNull\<close> is Python's \<open>None\<close>. A
  dict is an association list in insertion order, its keys distinct as a Python dict
  has them. Numbers are integers: the program only ever tests a number for truth, and
  every other operation it applies raises on a float as it does on an int.
\<close>
datatype json =
    JNull
  | JBool bool
  | JNum int
  | JStr str
  | JArr "json list"
  | JObj "(str \<times> json) list"

text \<open>
  The exceptions. \<open>OtherError\<close> is whatever the outside raises: a connection error of
  \<open>requests\<close>, a decoding error of \<open>response.json()\<close>, a failure of the Gemini client.
\<close>
datatype exn = KeyError | TypeError | AttributeError | IndexError | OtherError string

text \<open>\<open>bool(v)\<close>\<close>
fun truthy :: "json \<Rightarrow> bool" where
  "truthy JNull = False"
| "truthy (JBool b) = b"
| "truthy (JNum n) = (n \<noteq> 0)"
| "truthy (JStr s) = (s \<noteq> [])"
| "truthy (JArr xs) = (xs \<noteq> [])"
| "truthy (JObj kvs) = (kvs \<noteq> [])"

text \<open>\<open>'key' in v\<close> for a str literal on the left\<close>
fun py_in :: "str \<Rightarrow> json \<Rightarrow> exn + bool" where
  "py_in key (JObj kvs) = Inr (key \<in> set (map fst kvs))"
| "py_in key (JArr xs) = Inr (JStr key \<in> set xs)"
| "py_in key (JStr s) = Inr (str_in key s)"
| "py_in key v = Inl TypeError"

text \<open>\<open>v['key']\<close>\<close>
fun getitem :: "json \<Rightarrow> str \<Rightarrow> exn + json" where
  "getitem (JObj kvs) key = (case map_of kvs key of None \<Rightarrow> Inl KeyError | Some x \<Rightarrow> Inr x)"
| "getitem v key = Inl TypeError"

text \<open>\<open>v.get('key', default)\<close>\<close>
fun get :: "json \<Rightarrow> str \<Rightarrow> json \<Rightarrow> exn + json" where
  "get (JObj kvs) key dflt = Inr (case map_of kvs key of None \<Rightarrow> dflt | Some x \<Rightarrow> x)"
| "get v key dflt = Inl AttributeError"

text \<open>\<open>v['key'] = x\<close>, returning the updated value\<close>
fun setitem :: "json \<Rightarrow> str \<Rightarrow> json \<Rightarrow> exn + json" where
  "setitem (JObj kvs) key x = Inr (JObj (AList.update key x kvs))"
| "setitem v key x = Inl TypeError"

text \<open>A value handed to \<open>re.sub\<close> or \<open>re.search\<close>, or to the right of \<open>in\<close> against a str.\<close>
fun str_of :: "json \<Rightarrow> exn + str" where
  "str_of (JStr s) = Inr s"
| "str_of v = Inl TypeError"

text \<open>The items \<open>list.extend(v)\<close> appends; \<open>len(v)\<close> is their number.\<close>
fun elements :: "json \<Rightarrow> exn + json list" where
  "elements (JArr xs) = Inr xs"
| "elements (JObj kvs) = Inr (map (\<lambda>kv. JStr (fst kv)) kvs)"
| "elements (JStr s) = Inr (map (\<lambda>c. JStr [c]) s)"
| "elements v = Inl TypeError"

subsection \<open>Computations: state and exceptions\<close>

type_synonym ('s, 'a) comp = "'s \<Rightarrow> (exn + 'a) \<times> 's"

definition returnM :: "'a \<Rightarrow> ('s, 'a) comp" where
  "returnM x = (\<lambda>s. (Inr x, s))"

definition raiseM :: "exn \<Rightarrow> ('s, 'a) comp" where
  "raiseM e = (\<lambda>s. (Inl e, s))"

text \<open>A pure step that may raise.\<close>
definition liftM :: "exn + 'a \<Rightarrow> ('s, 'a) comp" where
  "liftM r = (\<lambda>s. (r, s))"

definition bindM :: "('s, 'a) comp \<Rightarrow> ('a \<Rightarrow> ('s, 'b) comp) \<Rightarrow> ('s, 'b) comp" where
  "bindM m f = (\<lambda>s. case m s of (Inl e, s') \<Rightarrow> (Inl e, s') | (Inr x, s') \<Rightarrow> f x s')"

text \<open>\<open>try: m except Exception as e: h e\<close>. The state changes made before the raise stay.\<close>
definition catchM :: "('s, 'a) comp \<Rightarrow> (exn \<Rightarrow> ('s, 'a) comp) \<Rightarrow> ('s, 'a) comp" where
  "catchM m h = (\<lambda>s. case m s of (Inl e, s') \<Rightarrow> h e s' | (Inr x, s') \<Rightarrow> (Inr x, s'))"

text \<open>The same sequencing for pure steps.\<close>
definition bindE :: "exn + 'a \<Rightarrow> ('a \<Rightarrow> exn + 'b) \<Rightarrow> exn + 'b" where
  "bindE r f = (case r of Inl e \<Rightarrow> Inl e | Inr x \<Rightarrow> f x)"

subsection \<open>The outside world\<close>

text \<open>
  The dict sent as the JSON body of a write. \<open>ud_meta = Some bag\<close> stands for
  \<open>"meta": {"rank_math_data": json.dumps(bag)}\<close>: the model keeps the dict that is
  serialised, not the text.
\<close>
record update_data =
  ud_title :: "json option"
  ud_content :: "json option"
  ud_meta :: "json option"

definition no_updates :: update_data where
  "no_updates = \<lparr>ud_title = None, ud_content = None, ud_meta = None\<rparr>"

text \<open>
  The three HTTP calls of the program:
  \<open>GET /posts?status=publish&per_page=n&page=p\<close>, \<open>GET /posts/{id}?context=edit\<close> and
  \<open>POST /posts/{id}\<close> with a JSON body.
\<close>
datatype request =
    GetPosts int int
  | GetPost json
  | PostPost json update_data

record response =
  status_code :: int
  body_text :: str
  body_json :: "exn + json"

text \<open>
  The four prompts, each with the values put into its template; the fixed wording of
  the templates is left out.
\<close>
datatype prompt =
    DescriptionPrompt str json
  | KeywordPrompt json str
  | TitlePrompt json json
  | ParagraphPrompt json str

text \<open>
  \<open>http\<close> and \<open>gemini\<close> answer a call given the calls made before it; \<open>gemini\<close> gives
  \<open>response.text\<close> or the exception raised on the way. \<open>loads\<close> is \<open>json.loads\<close>
  (\<open>None\<close> when it raises), \<open>unescape\<close> is \<open>html.unescape\<close> and \<open>lower\<close> is \<open>str.lower\<close>.
\<close>
record env =
  http :: "request list \<Rightarrow> request \<Rightarrow> exn + response"
  gemini :: "prompt list \<Rightarrow> prompt \<Rightarrow> exn + str"
  loads :: "str \<Rightarrow> json option"
  unescape :: "str \<Rightarrow> str"
  lower :: "str \<Rightarrow> str"

text \<open>\<open>v.lower()\<close>\<close>
fun lower_of :: "env \<Rightarrow> json \<Rightarrow> exn + str" where
  "lower_of env (JStr s) = Inr (lower env s)"
| "lower_of env v = Inl AttributeError"

text \<open>The messages of \<open>self.log\<close>, each with the values formatted into it.\<close>
datatype message =
    NoKeywordFound
  | GeneratedKeyword json
  | UpdatedRankMathKeyword
  | FailedRankMathKeyword
  | NoDescriptionFound
  | GeneratedDescription json
  | DescriptionLacksKeyword json
  | UpdatedDescription json
  | UpdatedTitle json
  | UpdatedFirstParagraph
  | SuccessfullyUpdated
  | FailedToUpdate int str
  | ErrorUpdating exn
  | ErrorProcessing exn

record report_entry =
  r_post_id :: json
  r_post_slug :: json
  r_original_title :: json
  r_updated_title :: json
  r_meta_description_added :: bool
  r_keyword_added :: bool

record world =
  requests :: "request list"
  prompts :: "prompt list"
  log_data :: "(json \<times> message) list"
  report_data :: "report_entry list"

definition http_request :: "env \<Rightarrow> request \<Rightarrow> (world, response) comp" where
  "http_request env r = (\<lambda>w. (http env (requests w) r, w\<lparr>requests := requests w @ [r]\<rparr>))"

text \<open>\<open>self.gemini_model.generate_content(prompt).text\<close>\<close>
definition generate_content :: "env \<Rightarrow> prompt \<Rightarrow> (world, str) comp" where
  "generate_content env p = (\<lambda>w. (gemini env (prompts w) p, w\<lparr>prompts := prompts w @ [p]\<rparr>))"

definition log :: "json \<Rightarrow> message \<Rightarrow> (world, unit) comp" where
  "log post_id msg = (\<lambda>w. (Inr (), w\<lparr>log_data := log_data w @ [(post_id, msg)]\<rparr>))"

subsection \<open>\<open>get_all_published_posts\<close>\<close>

definition per_page :: int where
  "per_page = 100"

text \<open>
  The \<open>while True\<close> loop, from the posts gathered so far and the page to ask for. The
  value is \<open>None\<close> when the loop never ends (a server that serves full pages for ever).
  Nothing is caught here: a raise of \<open>requests.get\<close>, of \<open>response.json()\<close> or of
  \<open>posts.extend\<close> leaves the method.
\<close>
partial_function (option) fetch_pages ::
  "env \<Rightarrow> json list \<Rightarrow> int \<Rightarrow> world \<Rightarrow> ((exn + json list) \<times> world) option" where
  "fetch_pages env posts page w =
     (case http_request env (GetPosts per_page page) w of
        (Inl e, w') \<Rightarrow> Some (Inl e, w')
      | (Inr response, w') \<Rightarrow>
          if status_code response \<noteq> 200 then Some (Inr posts, w')
          else (case body_json response of
                  Inl e \<Rightarrow> Some (Inl e, w')
                | Inr batch \<Rightarrow>
                    if \<not> truthy batch then Some (Inr posts, w')
                    else (case elements batch of
                            Inl e \<Rightarrow> Some (Inl e, w')
                          | Inr items \<Rightarrow>
                              if int (length items) < per_page then Some (Inr (posts @ items), w')
                              else fetch_pages env (posts @ items) (page + 1) w')))"

declare fetch_pages.simps [code]

definition get_all_published_posts :: "env \<Rightarrow> world \<Rightarrow> ((exn + json list) \<times> world) option" where
  "get_all_published_posts env w = fetch_pages env [] 1 w"

subsection \<open>The Gemini helpers\<close>

text \<open>
  \<open>re.sub(r'<[^>]+>', '', content)\<close>, \<open>html.unescape\<close> and \<open>[:1500]\<close>. These lines stand
  before the \<open>try\<close> of the two generators, so a content that is not a str raises out
  of them.
\<close>
definition sample_content :: "env \<Rightarrow> json \<Rightarrow> exn + str" where
  "sample_content env content =
     bindE (str_of content) (\<lambda>s. Inr (take 1500 (unescape env (strip_tags s))))"

definition generate_meta_description :: "env \<Rightarrow> json \<Rightarrow> json \<Rightarrow> int \<Rightarrow> (world, json) comp" where
  "generate_meta_description env content keyword max_length =
     bindM (liftM (sample_content env content)) (\<lambda>sample.
       catchM
         (bindM (generate_content env
                   (DescriptionPrompt sample
                      (if truthy keyword then keyword else JStr (ascii ''[generate appropriate keyword]''))))
            (\<lambda>text.
               let meta_description = strip text in
               returnM (JStr (if int (length meta_description) > max_length
                              then slice_to meta_description (max_length - 3) @ (ascii ''...'')
                              else meta_description))))
         (\<lambda>e. returnM JNull))"

definition generate_keyword :: "env \<Rightarrow> json \<Rightarrow> json \<Rightarrow> (world, json) comp" where
  "generate_keyword env content title =
     bindM (liftM (sample_content env content)) (\<lambda>sample.
       catchM
         (bindM (generate_content env (KeywordPrompt title sample))
            (\<lambda>text.
               let keyword = strip text in
               if str_in (ascii '':'') keyword
               then (case split_first (ascii '':'') keyword of
                       None \<Rightarrow> raiseM IndexError
                     | Some (label, rest) \<Rightarrow> returnM (JStr (strip rest)))
               else returnM (JStr keyword)))
         (\<lambda>e. returnM JNull))"

definition update_post_title :: "env \<Rightarrow> json \<Rightarrow> json \<Rightarrow> (world, json) comp" where
  "update_post_title env title keyword =
     bindM (liftM (lower_of env keyword)) (\<lambda>keyword_lower.
     bindM (liftM (lower_of env title)) (\<lambda>title_lower.
       if str_in keyword_lower title_lower then returnM title
       else catchM
              (bindM (generate_content env (TitlePrompt keyword title))
                 (\<lambda>text.
                    let new_title = strip text in
                    if \<not> str_in keyword_lower (lower env new_title) then returnM title
                    else returnM (JStr new_title)))
              (\<lambda>e. returnM title)))"

definition update_first_paragraph :: "env \<Rightarrow> json \<Rightarrow> json \<Rightarrow> (world, json) comp" where
  "update_first_paragraph env content keyword =
     bindM (liftM (str_of content)) (\<lambda>s.
       case first_paragraph s of
         None \<Rightarrow> returnM content
       | Some first_para \<Rightarrow>
           let first_para_clean = strip_tags first_para in
           bindM (liftM (lower_of env keyword)) (\<lambda>keyword_lower.
             if str_in keyword_lower (lower env first_para_clean) then returnM content
             else catchM
                    (bindM (generate_content env (ParagraphPrompt keyword first_para_clean))
                       (\<lambda>text.
                          let new_para = strip text in
                          returnM (JStr (replace s first_para new_para))))
                    (\<lambda>e. returnM content)))"

subsection \<open>Reading and writing the Rank Math data\<close>

text \<open>
  What \<open>get_rank_math_data\<close> makes of the decoded post: the inner \<open>try\<close> with its bare
  \<open>except\<close> turns a failing lookup or \<open>json.loads\<close> into \<open>None\<close>; a raise of the
  membership tests or of \<open>post_data['meta']\<close> goes to the outer handler.
\<close>
definition rank_math_of :: "env \<Rightarrow> json \<Rightarrow> exn + json" where
  "rank_math_of env post_data =
     bindE (py_in (ascii ''meta'') post_data) (\<lambda>has_meta.
       if \<not> has_meta then Inr JNull
       else bindE (getitem post_data (ascii ''meta'')) (\<lambda>meta.
              bindE (py_in (ascii ''rank_math_data'') meta) (\<lambda>has_data.
                if \<not> has_data then Inr JNull
                else Inr (case getitem meta (ascii ''rank_math_data'') of
                            Inl e \<Rightarrow> JNull
                          | Inr (JStr s) \<Rightarrow> (case loads env s of None \<Rightarrow> JNull | Some v \<Rightarrow> v)
                          | Inr v \<Rightarrow> v))))"

definition get_rank_math_data :: "env \<Rightarrow> json \<Rightarrow> (world, json) comp" where
  "get_rank_math_data env post_id =
     catchM
       (bindM (http_request env (GetPost post_id)) (\<lambda>response.
          if status_code response \<noteq> 200 then returnM JNull
          else bindM (liftM (body_json response)) (\<lambda>post_data.
                 liftM (rank_math_of env post_data))))
       (\<lambda>e. returnM JNull)"

definition update_rank_math_keyword :: "env \<Rightarrow> json \<Rightarrow> json \<Rightarrow> (world, bool) comp" where
  "update_rank_math_keyword env post_id keyword =
     catchM
       (bindM (get_rank_math_data env post_id) (\<lambda>existing.
          let rank_math_data = (if existing = JNull then JObj [] else existing) in
          bindM (liftM (setitem rank_math_data (ascii ''focus_keyword'') keyword)) (\<lambda>rank_math_data.
          bindM (http_request env
                   (PostPost post_id
                      \<lparr>ud_title = None, ud_content = None, ud_meta = Some rank_math_data\<rparr>))
            (\<lambda>response. returnM (status_code response = 200)))))
       (\<lambda>e. returnM False)"

subsection \<open>\<open>process_post\<close>\<close>

text \<open>
  Inside the \<open>try\<close> of \<open>process_post\<close> the state is the report entry together with the
  world: the entry is a dict changed in place, and what was written to it before a raise
  is still there when the handler returns it.
\<close>
type_synonym 'a post_comp = "(report_entry \<times> world, 'a) comp"

definition in_world :: "(world, 'a) comp \<Rightarrow> 'a post_comp" where
  "in_world m = (\<lambda>(entry, w). case m w of (r, w') \<Rightarrow> (r, (entry, w')))"

definition set_entry :: "(report_entry \<Rightarrow> report_entry) \<Rightarrow> unit post_comp" where
  "set_entry f = (\<lambda>(entry, w). (Inr (), (f entry, w)))"

definition get_entry :: "report_entry post_comp" where
  "get_entry = (\<lambda>(entry, w). (Inr entry, (entry, w)))"

text \<open>
  The Yoast check: \<open>'yoast_head_json' in post and post['yoast_head_json'] and
  'description' in post['yoast_head_json']\<close>, then the description and its truth value.
\<close>
definition yoast_description :: "json \<Rightarrow> exn + (json \<times> bool)" where
  "yoast_description post =
     bindE (py_in (ascii ''yoast_head_json'') post) (\<lambda>has_yoast.
       if \<not> has_yoast then Inr (JNull, False)
       else bindE (getitem post (ascii ''yoast_head_json'')) (\<lambda>yoast.
              if \<not> truthy yoast then Inr (JNull, False)
              else bindE (py_in (ascii ''description'') yoast) (\<lambda>has_description.
                     if \<not> has_description then Inr (JNull, False)
                     else bindE (getitem yoast (ascii ''description'')) (\<lambda>d. Inr (d, truthy d)))))"

text \<open>
  The Rank Math block (lines 304-312), from what the Yoast check gave and the Rank Math
  data: \<open>(meta_description, meta_description_exists, keyword, keyword_exists)\<close>.
\<close>
definition rank_math_seo :: "json \<times> bool \<Rightarrow> json \<Rightarrow> exn + (json \<times> bool \<times> json \<times> bool)" where
  "rank_math_seo yoast rank_math_data =
     (case yoast of (meta_description, meta_description_exists) \<Rightarrow>
       if truthy rank_math_data
       then bindE (if \<not> meta_description_exists
                   then bindE (py_in (ascii ''description'') rank_math_data) (\<lambda>has_description.
                          if has_description
                          then bindE (get rank_math_data (ascii ''description'') (JStr []))
                                 (\<lambda>d. Inr (d, truthy d))
                          else Inr (meta_description, meta_description_exists))
                   else Inr (meta_description, meta_description_exists))
              (\<lambda>(meta_description, meta_description_exists).
                 bindE (get rank_math_data (ascii ''focus_keyword'') (JStr []))
                   (\<lambda>keyword. Inr (meta_description, meta_description_exists, keyword, truthy keyword)))
       else Inr (meta_description, meta_description_exists, JNull, False))"

text \<open>
  What the post and the Rank Math data read for it give, the two blocks one after the
  other. In \<open>process_post\<close> the request for the Rank Math data stands between them.
\<close>
definition existing_seo :: "json \<Rightarrow> json \<Rightarrow> exn + (json \<times> bool \<times> json \<times> bool)" where
  "existing_seo post rank_math_data =
     bindE (yoast_description post) (\<lambda>yoast. rank_math_seo yoast rank_math_data)"

text \<open>\<open>if not keyword_exists: ...\<close>; the value is the new \<open>(keyword, keyword_exists)\<close>.\<close>
definition keyword_step ::
  "env \<Rightarrow> json \<Rightarrow> json \<Rightarrow> json \<Rightarrow> json \<Rightarrow> bool \<Rightarrow> (json \<times> bool) post_comp" where
  "keyword_step env post_id post_title post_content keyword keyword_exists =
     (if keyword_exists then returnM (keyword, keyword_exists)
      else bindM (in_world (log post_id NoKeywordFound)) (\<lambda>_.
           bindM (in_world (generate_keyword env post_content post_title)) (\<lambda>keyword.
             if truthy keyword
             then bindM (in_world (log post_id (GeneratedKeyword keyword))) (\<lambda>_.
                  bindM (in_world (update_rank_math_keyword env post_id keyword)) (\<lambda>updated.
                    if updated
                    then bindM (in_world (log post_id UpdatedRankMathKeyword)) (\<lambda>_.
                         bindM (set_entry (\<lambda>entry. entry\<lparr>r_keyword_added := True\<rparr>)) (\<lambda>_.
                           returnM (keyword, True)))
                    else bindM (in_world (log post_id FailedRankMathKeyword)) (\<lambda>_.
                           returnM (keyword, False))))
             else returnM (keyword, False))))"

text \<open>\<open>keyword not in meta_description.lower()\<close>\<close>
definition keyword_not_in_description :: "env \<Rightarrow> json \<Rightarrow> json \<Rightarrow> exn + bool" where
  "keyword_not_in_description env keyword meta_description =
     bindE (lower_of env meta_description) (\<lambda>description_lower.
     bindE (str_of keyword) (\<lambda>k. Inr (\<not> str_in k description_lower)))"

text \<open>\<open>a.lower() not in b.lower()\<close>\<close>
definition lower_not_in_lower :: "env \<Rightarrow> json \<Rightarrow> json \<Rightarrow> exn + bool" where
  "lower_not_in_lower env a b =
     bindE (lower_of env a) (\<lambda>a_lower.
     bindE (lower_of env b) (\<lambda>b_lower. Inr (\<not> str_in a_lower b_lower)))"

text \<open>
  The call of \<open>generate_meta_description\<close> with what follows it in both branches; the
  branches differ in the message logged on success.
\<close>
definition describe :: "env \<Rightarrow> json \<Rightarrow> json \<Rightarrow> json \<Rightarrow> (json \<Rightarrow> message) \<Rightarrow> json post_comp" where
  "describe env post_id post_content keyword msg =
     bindM (in_world (generate_meta_description env post_content keyword 160)) (\<lambda>meta_description.
       if truthy meta_description
       then bindM (in_world (log post_id (msg meta_description))) (\<lambda>_.
            bindM (set_entry (\<lambda>entry. entry\<lparr>r_meta_description_added := True\<rparr>)) (\<lambda>_.
              returnM meta_description))
       else returnM meta_description)"

text \<open>\<open>if not meta_description_exists: ... elif ...\<close>; the value is the new \<open>meta_description\<close>.\<close>
definition description_step ::
  "env \<Rightarrow> json \<Rightarrow> json \<Rightarrow> json \<Rightarrow> bool \<Rightarrow> json \<Rightarrow> bool \<Rightarrow> json post_comp" where
  "description_step env post_id post_content meta_description meta_description_exists
       keyword keyword_exists =
     (if \<not> meta_description_exists
      then bindM (in_world (log post_id NoDescriptionFound)) (\<lambda>_.
             describe env post_id post_content keyword GeneratedDescription)
      else bindM (liftM (if keyword_exists
                         then keyword_not_in_description env keyword meta_description
                         else Inr False)) (\<lambda>regenerate.
             if regenerate
             then bindM (in_world (log post_id (DescriptionLacksKeyword keyword))) (\<lambda>_.
                    describe env post_id post_content keyword UpdatedDescription)
             else returnM meta_description))"

text \<open>The title block; \<open>updates_needed\<close> is assigned there and read nowhere.\<close>
definition title_step :: "env \<Rightarrow> json \<Rightarrow> json \<Rightarrow> json \<Rightarrow> bool \<Rightarrow> unit post_comp" where
  "title_step env post_id post_title keyword keyword_exists =
     bindM (liftM (if keyword_exists then lower_not_in_lower env keyword post_title else Inr False))
       (\<lambda>absent.
          if absent
          then bindM (in_world (update_post_title env post_title keyword)) (\<lambda>new_title.
                 if new_title \<noteq> post_title
                 then bindM (in_world (log post_id (UpdatedTitle new_title))) (\<lambda>_.
                        set_entry (\<lambda>entry. entry\<lparr>r_updated_title := new_title\<rparr>))
                 else returnM ())
          else returnM ())"

text \<open>\<open>update_data\<close>, from \<open>update_data = {}\<close> to the \<open>"meta"\<close> entry.\<close>
definition prepare_update ::
  "env \<Rightarrow> json \<Rightarrow> json \<Rightarrow> json \<Rightarrow> bool \<Rightarrow> json \<Rightarrow> json \<Rightarrow> update_data post_comp" where
  "prepare_update env post_id post_content keyword keyword_exists meta_description rank_math_data =
     bindM get_entry (\<lambda>entry.
       let update_data =
             (if truthy (r_updated_title entry)
              then no_updates\<lparr>ud_title := Some (r_updated_title entry)\<rparr>
              else no_updates) in
       bindM (liftM (if keyword_exists then lower_not_in_lower env keyword post_content else Inr False))
         (\<lambda>absent.
            bindM (if absent
                   then bindM (in_world (update_first_paragraph env post_content keyword))
                          (\<lambda>new_content.
                             if new_content \<noteq> post_content
                             then bindM (in_world (log post_id UpdatedFirstParagraph)) (\<lambda>_.
                                    returnM (update_data\<lparr>ud_content := Some new_content\<rparr>))
                             else returnM update_data)
                   else returnM update_data)
              (\<lambda>update_data.
                 if truthy meta_description
                 then bindM (liftM (setitem (if \<not> truthy rank_math_data then JObj []
                                             else rank_math_data)
                                      (ascii ''description'') meta_description))
                        (\<lambda>rank_math_data. returnM (update_data\<lparr>ud_meta := Some rank_math_data\<rparr>))
                 else returnM update_data)))"

text \<open>\<open>if update_data: ...\<close>: the write, with its own \<open>try\<close>.\<close>
definition submit_update :: "env \<Rightarrow> json \<Rightarrow> update_data \<Rightarrow> (world, unit) comp" where
  "submit_update env post_id update_data =
     (if update_data \<noteq> no_updates
      then catchM
             (bindM (http_request env (PostPost post_id update_data)) (\<lambda>response.
                if status_code response = 200 then log post_id SuccessfullyUpdated
                else log post_id (FailedToUpdate (status_code response) (body_text response))))
             (\<lambda>e. log post_id (ErrorUpdating e))
      else returnM ())"

text \<open>The body of the \<open>try\<close>; its value is the update that was prepared.\<close>
definition process_post_try ::
  "env \<Rightarrow> json \<Rightarrow> json \<Rightarrow> json \<Rightarrow> json \<Rightarrow> update_data post_comp" where
  "process_post_try env post post_id post_title post_content =
     bindM (liftM (yoast_description post)) (\<lambda>yoast.
     bindM (in_world (get_rank_math_data env post_id)) (\<lambda>rank_math_data.
     bindM (liftM (rank_math_seo yoast rank_math_data))
       (\<lambda>(meta_description, meta_description_exists, keyword, keyword_exists).
     bindM (keyword_step env post_id post_title post_content keyword keyword_exists)
       (\<lambda>(keyword, keyword_exists).
     bindM (description_step env post_id post_content meta_description meta_description_exists
              keyword keyword_exists) (\<lambda>meta_description.
     bindM (title_step env post_id post_title keyword keyword_exists) (\<lambda>_.
     bindM (prepare_update env post_id post_content keyword keyword_exists meta_description
              rank_math_data) (\<lambda>update_data.
     bindM (in_world (submit_update env post_id update_data)) (\<lambda>_.
     bindM get_entry (\<lambda>entry.
     bindM (in_world (\<lambda>w. (Inr (), w\<lparr>report_data := report_data w @ [entry]\<rparr>))) (\<lambda>_.
       returnM update_data))))))))))"

text \<open>The four reads that stand before the \<open>try\<close>.\<close>
definition post_fields :: "json \<Rightarrow> exn + (json \<times> json \<times> json \<times> json)" where
  "post_fields post =
     bindE (getitem post (ascii ''id'')) (\<lambda>post_id.
     bindE (bindE (getitem post (ascii ''title'')) (\<lambda>t. getitem t (ascii ''rendered''))) (\<lambda>post_title.
     bindE (bindE (getitem post (ascii ''content'')) (\<lambda>c. getitem c (ascii ''rendered''))) (\<lambda>post_content.
     bindE (getitem post (ascii ''slug'')) (\<lambda>post_slug.
       Inr (post_id, post_title, post_content, post_slug)))))"

definition new_entry :: "json \<Rightarrow> json \<Rightarrow> json \<Rightarrow> report_entry" where
  "new_entry post_id post_slug post_title =
     \<lparr>r_post_id = post_id, r_post_slug = post_slug, r_original_title = post_title,
      r_updated_title = JNull, r_meta_description_added = False, r_keyword_added = False\<rparr>"

definition process_post :: "env \<Rightarrow> json \<Rightarrow> (world, report_entry) comp" where
  "process_post env post =
     bindM (liftM (post_fields post)) (\<lambda>(post_id, post_title, post_content, post_slug).
       (\<lambda>w. case process_post_try env post post_id post_title post_content
                   (new_entry post_id post_slug post_title, w) of
               (Inl e, (entry, w')) \<Rightarrow> (Inr entry, snd (log post_id (ErrorProcessing e) w'))
             | (Inr update_data, (entry, w')) \<Rightarrow> (Inr entry, w')))"

text \<open>The \<open>for\<close> loop of \<open>run\<close>; its \<open>print\<close> reads \<open>post['id']\<close> before the call.\<close>
fun process_posts :: "env \<Rightarrow> json list \<Rightarrow> (world, unit) comp" where
  "process_posts env [] = returnM ()"
| "process_posts env (post # posts) =
     bindM (liftM (getitem post (ascii ''id''))) (\<lambda>_.
     bindM (process_post env post) (\<lambda>_.
       process_posts env posts))"

subsection \<open>Concrete inputs\<close>

text \<open>A fresh optimizer: nothing requested, nothing logged, nothing reported.\<close>
definition world0 :: world where
  "world0 = \<lparr>requests = [], prompts = [], log_data = [], report_data = []\<rparr>"

definition reply :: "int \<Rightarrow> json \<Rightarrow> response" where
  "reply code v = \<lparr>status_code = code, body_text = [], body_json = Inr v\<rparr>"

text \<open>
  ASCII letters folded to lower case and every other code point kept: what \<open>str.lower\<close>
  gives on a string whose cased characters are ASCII letters or have no lower-case form.
\<close>
definition fold_ascii :: "str \<Rightarrow> str" where
  "fold_ascii s = map (\<lambda>c. if 65 \<le> c \<and> c \<le> 90 then c + 32 else c) s"

text \<open>
  An environment whose services answer by the call alone; \<open>json.loads\<close> rejects every
  text, \<open>html.unescape\<close> finds no entity and \<open>str.lower\<close> meets ASCII letters only.
\<close>
definition env_of :: "(request \<Rightarrow> exn + response) \<Rightarrow> (prompt \<Rightarrow> exn + str) \<Rightarrow> env" where
  "env_of h g =
     \<lparr>http = (\<lambda>history. h), gemini = (\<lambda>history. g), loads = (\<lambda>s. None), unescape = (\<lambda>s. s),
      lower = fold_ascii\<rparr>"

definition no_http :: "request \<Rightarrow> exn + response" where
  "no_http r = Inl (OtherError ''connection refused'')"

definition no_gemini :: "prompt \<Rightarrow> exn + str" where
  "no_gemini p = Inl (OtherError ''backend unavailable'')"

text \<open>
  A site where every post has a Rank Math bag with a description and a focus keyword,
  and every other request is answered with 200.
\<close>
definition bag_http :: "request \<Rightarrow> exn + response" where
  "bag_http r =
     (case r of
        GetPost post_id \<Rightarrow>
          Inr (reply 200 (JObj [(ascii ''meta'', JObj [((ascii ''rank_math_data''),
                 JObj [(ascii ''description'', JStr (ascii ''learn seo tips today'')),
                       (ascii ''focus_keyword'', JStr (ascii ''seo tips''))])])]))
      | _ \<Rightarrow> Inr (reply 200 JNull))"

definition two_posts :: "json list" where
  "two_posts = [JObj [(ascii ''id'', JNum 1)], JObj [(ascii ''id'', JNum 2)]]"

text \<open>
  Three posts: one whose title and body contain the keyword of \<open>bag_http\<close>, one without
  a slug, and one whose rendered content is a number.
\<close>
definition satisfied_post :: json where
  "satisfied_post =
     JObj [(ascii ''id'', JNum 7),
           (ascii ''title'', JObj [(ascii ''rendered'', JStr (ascii ''SEO Tips for Beginners''))]),
           (ascii ''content'', JObj [(ascii ''rendered'', JStr (ascii ''<p>These seo tips help.</p>''))]),
           (ascii ''slug'', JStr (ascii ''seo-tips''))]"

definition no_slug_post :: json where
  "no_slug_post =
     JObj [(ascii ''id'', JNum 7),
           (ascii ''title'', JObj [(ascii ''rendered'', JStr (ascii ''SEO Tips''))]),
           (ascii ''content'', JObj [(ascii ''rendered'', JStr (ascii ''<p>x</p>''))])]"

definition numeric_content_post :: json where
  "numeric_content_post =
     JObj [(ascii ''id'', JNum 7),
           (ascii ''title'', JObj [(ascii ''rendered'', JStr (ascii ''SEO Tips''))]),
           (ascii ''content'', JObj [(ascii ''rendered'', JNum 5)]),
           (ascii ''slug'', JStr (ascii ''seo-tips''))]"

text \<open>A site with 102 posts: the first request is answered with a full page.\<close>
definition paged_env :: env where
  "paged_env =
     \<lparr>http = (\<lambda>history r.
                if history = [] then Inr (reply 200 (JArr (replicate 100 (JObj [(ascii ''id'', JNum 1)]))))
                else Inr (reply 200 (JArr two_posts))),
      gemini = (\<lambda>history. no_gemini), loads = (\<lambda>s. None), unescape = (\<lambda>s. s),
      lower = fold_ascii\<rparr>"

section \<open>Properties\<close>

subsection \<open>Auxiliary facts\<close>

lemmas comp_defs = returnM_def raiseM_def liftM_def bindM_def catchM_def bindE_def

lemmas str_eval = ascii_def cp_def fold_ascii_def strip_def is_space_def

lemmas step_defs =
  process_post_def process_post_try_def post_fields_def new_entry_def rank_math_seo_def
  yoast_description_def keyword_step_def description_step_def describe_def title_step_def
  prepare_update_def submit_update_def keyword_not_in_description_def lower_not_in_lower_def
  in_world_def set_entry_def get_entry_def log_def http_request_def generate_content_def
  get_rank_math_data_def rank_math_of_def update_rank_math_keyword_def generate_keyword_def
  generate_meta_description_def sample_content_def update_post_title_def
  update_first_paragraph_def no_updates_def

lemma str_in_sublist: "str_in sub s \<longleftrightarrow> sublist sub s"
  by (induction s) (auto simp: sublist_Cons_right)

lemma str_in_char: "str_in [c] s \<longleftrightarrow> c \<in> set s"
  by (induction s) auto

lemma str_in_subset: "str_in sub s \<Longrightarrow> set sub \<subseteq> set s"
  by (auto simp: str_in_sublist dest: set_mono_sublist)

lemma fold_ascii_no_upper: "65 \<le> c \<Longrightarrow> c \<le> 90 \<Longrightarrow> c \<notin> set (fold_ascii s)"
  by (auto simp: fold_ascii_def)

lemma split_first_char: "c \<notin> set a \<Longrightarrow> split_first [c] (a @ c # b) = Some (a, b)"
  by (induction a) auto

lemma split_first_sound: "split_first pat s = Some (a, b) \<Longrightarrow> s = a @ pat @ b"
proof (induction s arbitrary: a)
  case Nil
  then show ?case by (simp split: if_splits)
next
  case (Cons c cs)
  show ?case
  proof (cases "prefix pat (c # cs)")
    case True
    with Cons.prems have "a = []" "b = drop (length pat) (c # cs)" by auto
    with True show ?thesis by (metis append_Nil append_eq_conv_conj prefixE)
  next
    case False
    with Cons.prems obtain a' where "split_first pat cs = Some (a', b)" "a = c # a'"
      by auto
    with Cons.IH show ?thesis by simp
  qed
qed

lemma split_first_None: "split_first pat s = None \<longleftrightarrow> \<not> str_in pat s"
  by (induction s) auto

lemma split_first_leftmost:
  "split_first pat s = Some (a, b) \<Longrightarrow> s = a' @ pat @ b' \<Longrightarrow> length a \<le> length a'"
proof (induction s arbitrary: a a')
  case Nil
  then show ?case by (simp split: if_splits)
next
  case (Cons c cs)
  show ?case
  proof (cases "prefix pat (c # cs)")
    case True
    with Cons.prems(1) have "a = []" by simp
    then show ?thesis by simp
  next
    case False
    with Cons.prems(1) obtain a2 where a2: "split_first pat cs = Some (a2, b)" "a = c # a2"
      by auto
    from False Cons.prems(2) have "a' \<noteq> []" by auto
    with Cons.prems(2) obtain a3 where a3: "a' = c # a3" "cs = a3 @ pat @ b'"
      by (cases a') auto
    from Cons.IH [OF a2(1) a3(2)] a2(2) a3(1) show ?thesis by simp
  qed
qed

lemma first_paragraph_Some:
  assumes "first_paragraph s = Some para"
  shows "\<exists>a c. s = a @ ascii ''<p>'' @ para @ ascii ''</p>'' @ c"
proof -
  from assms obtain a rest c where
    "split_first (ascii ''<p>'') s = Some (a, rest)"
    "split_first (ascii ''</p>'') rest = Some (para, c)"
    by (auto simp: first_paragraph_def split: option.splits)
  then have "s = a @ ascii ''<p>'' @ rest" "rest = para @ ascii ''</p>'' @ c"
    by (auto dest: split_first_sound)
  then show ?thesis by blast
qed

lemma first_paragraph_None:
  "first_paragraph s = None \<longleftrightarrow> \<not> (\<exists>a b c. s = a @ ascii ''<p>'' @ b @ ascii ''</p>'' @ c)"
proof
  assume none: "first_paragraph s = None"
  show "\<not> (\<exists>a b c. s = a @ ascii ''<p>'' @ b @ ascii ''</p>'' @ c)"
  proof
    assume "\<exists>a b c. s = a @ ascii ''<p>'' @ b @ ascii ''</p>'' @ c"
    then obtain a' b' c' where s: "s = a' @ ascii ''<p>'' @ (b' @ ascii ''</p>'' @ c')" by auto
    then have "sublist (ascii ''<p>'') s" unfolding sublist_def by blast
    then obtain a rest where sp: "split_first (ascii ''<p>'') s = Some (a, rest)"
      using split_first_None [of "ascii ''<p>''" s] by (auto simp: str_in_sublist)
    from split_first_leftmost [OF sp s] have le: "length a \<le> length a'" .
    define xs where "xs = a' @ ascii ''<p>''"
    define ys where "ys = b' @ ascii ''</p>'' @ c'"
    have xs: "s = xs @ ys" "length a + length (ascii ''<p>'') \<le> length xs"
      using s le by (simp_all add: xs_def ys_def)
    from split_first_sound [OF sp]
    have "rest = drop (length a + length (ascii ''<p>'')) s" by simp
    also have "\<dots> = drop (length a + length (ascii ''<p>'')) xs @ ys"
      using xs by simp
    finally have "rest = (drop (length a + length (ascii ''<p>'')) xs @ b') @ ascii ''</p>'' @ c'"
      by (simp add: ys_def)
    then have "sublist (ascii ''</p>'') rest" unfolding sublist_def by blast
    then have "split_first (ascii ''</p>'') rest \<noteq> None"
      by (simp add: split_first_None str_in_sublist)
    with sp none show False by (auto simp: first_paragraph_def)
  qed
next
  assume "\<not> (\<exists>a b c. s = a @ ascii ''<p>'' @ b @ ascii ''</p>'' @ c)"
  then show "first_paragraph s = None"
    using first_paragraph_Some [of s] by (cases "first_paragraph s") auto
qed



subsection \<open>The generators\<close>

text \<open>
  C4. Whatever text the backend answers, \<open>generate_meta_description\<close> (with the default
  \<open>max_length\<close> of 160) returns a string of at most 160 characters: the trimmed text
  itself when that has at most 160 characters, and otherwise its first 157 characters
  followed by \<open>...\<close>, which is exactly 160 characters.
\<close>
theorem generate_meta_description_length:
  assumes "sample_content env content = Inr sample"
    and "gemini env (prompts w)
           (DescriptionPrompt sample
              (if truthy keyword then keyword
               else JStr (ascii ''[generate appropriate keyword]'')))
         = Inr text"
  shows "\<exists>d. fst (generate_meta_description env content keyword 160 w) = Inr (JStr d)
           \<and> length d \<le> 160
           \<and> (length (strip text) \<le> 160 \<longrightarrow> d = strip text)
           \<and> (160 < length (strip text) \<longrightarrow>
                length d = 160 \<and> take 157 d = take 157 (strip text)
                \<and> drop 157 d = ascii ''...'')"
  using assms
  by (auto simp: generate_meta_description_def generate_content_def comp_defs slice_to_def
        Let_def ascii_def)

text \<open>
  Two answers: a no-break space and 200 letters, cut to 157 letters and three dots, and
  100 euro signs, returned as they are.
\<close>
theorem generate_meta_description_length_witness:
  "(\<exists>d. fst (generate_meta_description
               (env_of no_http (\<lambda>p. Inr (160 # replicate 200 (cp CHR ''a''))))
               (JStr (ascii ''<p>hi</p>'')) JNull 160 world0) = Inr (JStr d)
        \<and> length d = 160 \<and> take 157 d = replicate 157 (cp CHR ''a'')
        \<and> drop 157 d = ascii ''...'')
   \<and> fst (generate_meta_description (env_of no_http (\<lambda>p. Inr (replicate 100 8364)))
           (JStr (ascii ''<p>hi</p>'')) JNull 160 world0) = Inr (JStr (replicate 100 8364))"
proof -
  let ?long = "env_of no_http (\<lambda>p. Inr (160 # replicate 200 (cp CHR ''a'')))"
  let ?euro = "env_of no_http (\<lambda>p. Inr (replicate 100 8364))"
  let ?prompt = "DescriptionPrompt (ascii ''hi'')
                   (if truthy JNull then JNull else JStr (ascii ''[generate appropriate keyword]''))"
  have h1: "sample_content ?long (JStr (ascii ''<p>hi</p>'')) = Inr (ascii ''hi'')"
    by (simp add: sample_content_def env_of_def bindE_def str_eval)
  have h2: "gemini ?long (prompts world0) ?prompt = Inr (160 # replicate 200 (cp CHR ''a''))"
    by (simp add: env_of_def)
  have h3: "strip (160 # replicate 200 (cp CHR ''a'')) = replicate 200 (cp CHR ''a'')"
    by (simp add: str_eval)
  have h4: "sample_content ?euro (JStr (ascii ''<p>hi</p>'')) = Inr (ascii ''hi'')"
    by (simp add: sample_content_def env_of_def bindE_def str_eval)
  have h5: "gemini ?euro (prompts world0) ?prompt = Inr (replicate 100 8364)"
    by (simp add: env_of_def)
  have h6: "strip (replicate 100 8364) = replicate 100 8364"
    by (simp add: str_eval)
  from generate_meta_description_length [OF h1 h2] h3
  have a: "\<exists>d. fst (generate_meta_description ?long (JStr (ascii ''<p>hi</p>'')) JNull 160 world0)
                = Inr (JStr d)
             \<and> length d = 160 \<and> take 157 d = replicate 157 (cp CHR ''a'')
             \<and> drop 157 d = ascii ''...''"
    by auto
  from generate_meta_description_length [OF h4 h5] h6
  have b: "fst (generate_meta_description ?euro (JStr (ascii ''<p>hi</p>'')) JNull 160 world0)
           = Inr (JStr (replicate 100 8364))"
    by auto
  from a b show ?thesis by blast
qed

text \<open>
  C9. \<open>generate_keyword\<close> returns the trimmed answer of the backend when it has no colon;
  when it has one, it returns the trimmed text after the first colon, dropping the label
  before it; and it returns \<open>None\<close> when the backend call raises.
\<close>
theorem generate_keyword_label:
  assumes "sample_content env content = Inr sample"
  shows "(\<forall>text. gemini env (prompts w) (KeywordPrompt title sample) = Inr text \<longrightarrow>
            (cp CHR '':'' \<notin> set (strip text) \<longrightarrow>
               fst (generate_keyword env content title w) = Inr (JStr (strip text)))
          \<and> (\<forall>label rest. strip text = label @ ascii '':'' @ rest
                           \<and> cp CHR '':'' \<notin> set label \<longrightarrow>
               fst (generate_keyword env content title w) = Inr (JStr (strip rest))))
       \<and> (\<forall>e. gemini env (prompts w) (KeywordPrompt title sample) = Inl e \<longrightarrow>
            fst (generate_keyword env content title w) = Inr JNull)"
  using assms
  by (auto simp: generate_keyword_def generate_content_def comp_defs Let_def
        str_in_char split_first_char ascii_def)

text \<open>
  Two answers with white space outside ASCII: an em space, a label, a keyword and a
  no-break space; and an em space, a keyword and a no-break space.
\<close>
theorem generate_keyword_label_witness:
  "fst (generate_keyword (env_of no_http (\<lambda>p. Inr (8195 # ascii ''Keyword: seo tips'' @ [160])))
          (JStr (ascii ''<p>hi</p>'')) (JStr (ascii ''Tips'')) world0)
     = Inr (JStr (ascii ''seo tips''))
   \<and> fst (generate_keyword (env_of no_http (\<lambda>p. Inr (8195 # ascii ''kw'' @ [160])))
          (JStr (ascii ''<p>hi</p>'')) (JStr (ascii ''Tips'')) world0)
     = Inr (JStr (ascii ''kw''))"
proof -
  let ?env = "env_of no_http (\<lambda>p. Inr (8195 # ascii ''Keyword: seo tips'' @ [160]))"
  let ?env2 = "env_of no_http (\<lambda>p. Inr (8195 # ascii ''kw'' @ [160]))"
  have h1: "sample_content ?env (JStr (ascii ''<p>hi</p>'')) = Inr (ascii ''hi'')"
    by (simp add: sample_content_def env_of_def bindE_def str_eval)
  have h2: "gemini ?env (prompts world0) (KeywordPrompt (JStr (ascii ''Tips'')) (ascii ''hi''))
            = Inr (8195 # ascii ''Keyword: seo tips'' @ [160])"
    by (simp add: env_of_def)
  have h3: "strip (8195 # ascii ''Keyword: seo tips'' @ [160])
              = ascii ''Keyword'' @ ascii '':'' @ ascii '' seo tips''
            \<and> cp CHR '':'' \<notin> set (ascii ''Keyword'')"
    by (simp add: str_eval)
  have h4: "strip (ascii '' seo tips'') = ascii ''seo tips''"
    by (simp add: str_eval)
  from generate_keyword_label [OF h1, of world0 "JStr (ascii ''Tips'')"] h2 h3
  have "fst (generate_keyword ?env (JStr (ascii ''<p>hi</p>'')) (JStr (ascii ''Tips'')) world0)
        = Inr (JStr (strip (ascii '' seo tips'')))"
    by blast
  with h4 have a: "fst (generate_keyword ?env (JStr (ascii ''<p>hi</p>'')) (JStr (ascii ''Tips''))
                     world0) = Inr (JStr (ascii ''seo tips''))"
    by simp
  have h5: "sample_content ?env2 (JStr (ascii ''<p>hi</p>'')) = Inr (ascii ''hi'')"
    by (simp add: sample_content_def env_of_def bindE_def str_eval)
  have h6: "gemini ?env2 (prompts world0) (KeywordPrompt (JStr (ascii ''Tips'')) (ascii ''hi''))
            = Inr (8195 # ascii ''kw'' @ [160])"
    by (simp add: env_of_def)
  have h7: "strip (8195 # ascii ''kw'' @ [160]) = ascii ''kw''
            \<and> cp CHR '':'' \<notin> set (strip (8195 # ascii ''kw'' @ [160]))"
    by (simp add: str_eval)
  from generate_keyword_label [OF h5, of world0 "JStr (ascii ''Tips'')"] h6 h7
  have b: "fst (generate_keyword ?env2 (JStr (ascii ''<p>hi</p>'')) (JStr (ascii ''Tips'')) world0)
           = Inr (JStr (ascii ''kw''))"
    by metis
  from a b show ?thesis by blast
qed

subsection \<open>The editors\<close>

text \<open>
  C6. \<open>update_first_paragraph\<close> returns the content as it was given, and calls nothing,
  when the content has no \<open><p>...</p>\<close> block and when the keyword already occurs, case
  ignored, in the tag-stripped text of the first paragraph; it also returns the content as
  it was given when the backend call raises.
\<close>
theorem update_first_paragraph_unchanged:
  fixes content keyword :: str
  shows "(\<not> (\<exists>a b c. content = a @ ascii ''<p>'' @ b @ ascii ''</p>'' @ c) \<longrightarrow>
            update_first_paragraph env (JStr content) (JStr keyword) w = (Inr (JStr content), w))
       \<and> (\<forall>para. first_paragraph content = Some para \<longrightarrow>
            (str_in (lower env keyword) (lower env (strip_tags para)) \<longrightarrow>
               update_first_paragraph env (JStr content) (JStr keyword) w
               = (Inr (JStr content), w))
          \<and> (\<forall>e. gemini env (prompts w) (ParagraphPrompt (JStr keyword) (strip_tags para))
                   = Inl e \<longrightarrow>
               fst (update_first_paragraph env (JStr content) (JStr keyword) w)
               = Inr (JStr content)))"
proof (intro conjI impI allI)
  assume "\<not> (\<exists>a b c. content = a @ ascii ''<p>'' @ b @ ascii ''</p>'' @ c)"
  then have "first_paragraph content = None"
    using first_paragraph_None [of content] by blast
  then show "update_first_paragraph env (JStr content) (JStr keyword) w = (Inr (JStr content), w)"
    by (simp add: update_first_paragraph_def comp_defs)
next
  fix para
  assume "first_paragraph content = Some para"
    and "str_in (lower env keyword) (lower env (strip_tags para))"
  then show "update_first_paragraph env (JStr content) (JStr keyword) w = (Inr (JStr content), w)"
    by (simp add: update_first_paragraph_def comp_defs Let_def)
next
  fix para e
  assume "first_paragraph content = Some para"
    and "gemini env (prompts w) (ParagraphPrompt (JStr keyword) (strip_tags para)) = Inl e"
  then show "fst (update_first_paragraph env (JStr content) (JStr keyword) w) = Inr (JStr content)"
    by (simp add: update_first_paragraph_def generate_content_def comp_defs Let_def)
qed

theorem update_first_paragraph_unchanged_witness:
  "update_first_paragraph (env_of no_http no_gemini) (JStr (ascii ''<div>seo</p>''))
     (JStr (ascii ''tips'')) world0
     = (Inr (JStr (ascii ''<div>seo</p>'')), world0)
   \<and> update_first_paragraph (env_of no_http no_gemini) (JStr (ascii ''<p>My <b>SEO</b> Tips</p>''))
       (JStr (ascii ''seo tips'')) world0
     = (Inr (JStr (ascii ''<p>My <b>SEO</b> Tips</p>'')), world0)
   \<and> fst (update_first_paragraph (env_of no_http no_gemini) (JStr (ascii ''<p>Hello</p>''))
            (JStr (ascii ''tips'')) world0)
     = Inr (JStr (ascii ''<p>Hello</p>''))"
proof -
  let ?env = "env_of no_http no_gemini"
  have h1: "first_paragraph (ascii ''<div>seo</p>'') = None"
    by (simp add: first_paragraph_def str_eval)
  have h2: "first_paragraph (ascii ''<p>My <b>SEO</b> Tips</p>'') = Some (ascii ''My <b>SEO</b> Tips'')"
    by (simp add: first_paragraph_def str_eval)
  have h3: "str_in (lower ?env (ascii ''seo tips''))
              (lower ?env (strip_tags (ascii ''My <b>SEO</b> Tips'')))"
    by (simp add: env_of_def str_eval)
  have h4: "first_paragraph (ascii ''<p>Hello</p>'') = Some (ascii ''Hello'')"
    by (simp add: first_paragraph_def str_eval)
  have h5: "gemini ?env (prompts world0)
              (ParagraphPrompt (JStr (ascii ''tips'')) (strip_tags (ascii ''Hello'')))
            = Inl (OtherError ''backend unavailable'')"
    by (simp add: env_of_def no_gemini_def)
  from update_first_paragraph_unchanged [of "ascii ''<div>seo</p>''" ?env "ascii ''tips''" world0] h1
  have a: "update_first_paragraph ?env (JStr (ascii ''<div>seo</p>'')) (JStr (ascii ''tips'')) world0
           = (Inr (JStr (ascii ''<div>seo</p>'')), world0)"
    by (simp only: first_paragraph_None) blast
  from update_first_paragraph_unchanged
         [of "ascii ''<p>My <b>SEO</b> Tips</p>''" ?env "ascii ''seo tips''" world0] h2 h3
  have b: "update_first_paragraph ?env (JStr (ascii ''<p>My <b>SEO</b> Tips</p>''))
             (JStr (ascii ''seo tips'')) world0
           = (Inr (JStr (ascii ''<p>My <b>SEO</b> Tips</p>'')), world0)"
    by blast
  from update_first_paragraph_unchanged [of "ascii ''<p>Hello</p>''" ?env "ascii ''tips''" world0] h4 h5
  have c: "fst (update_first_paragraph ?env (JStr (ascii ''<p>Hello</p>'')) (JStr (ascii ''tips''))
                  world0)
           = Inr (JStr (ascii ''<p>Hello</p>''))"
    by blast
  from a b c show ?thesis by blast
qed

text \<open>
  C5. \<open>update_post_title\<close> returns the title as it was given, and calls nothing, when the
  keyword already occurs in it, case ignored. Otherwise it asks the backend: it returns
  the given title when the call raises or when the trimmed answer does not contain the
  keyword, case ignored, and the trimmed answer otherwise. So what it returns is the
  given title or a string that contains the keyword, case ignored.
\<close>
theorem update_post_title_cases:
  fixes title keyword :: str
  shows "(str_in (lower env keyword) (lower env title) \<longrightarrow>
            update_post_title env (JStr title) (JStr keyword) w = (Inr (JStr title), w))
       \<and> (\<not> str_in (lower env keyword) (lower env title) \<longrightarrow>
            (\<forall>e. gemini env (prompts w) (TitlePrompt (JStr keyword) (JStr title)) = Inl e \<longrightarrow>
               fst (update_post_title env (JStr title) (JStr keyword) w) = Inr (JStr title))
          \<and> (\<forall>text. gemini env (prompts w) (TitlePrompt (JStr keyword) (JStr title)) = Inr text \<longrightarrow>
               fst (update_post_title env (JStr title) (JStr keyword) w)
               = Inr (JStr (if str_in (lower env keyword) (lower env (strip text)) then strip text
                            else title))))
       \<and> (\<exists>t. fst (update_post_title env (JStr title) (JStr keyword) w) = Inr (JStr t)
              \<and> (t = title \<or> str_in (lower env keyword) (lower env t)))"
  by (cases "gemini env (prompts w) (TitlePrompt (JStr keyword) (JStr title))")
     (auto simp: update_post_title_def generate_content_def comp_defs Let_def)

theorem update_post_title_cases_witness:
  "fst (update_post_title (env_of no_http (\<lambda>p. Inr (ascii ''My Great Widgets Post'')))
          (JStr (ascii ''My Great Post'')) (JStr (ascii ''widgets'')) world0)
     = Inr (JStr (ascii ''My Great Widgets Post''))
   \<and> fst (update_post_title (env_of no_http (\<lambda>p. Inr (ascii ''Something else'')))
          (JStr (ascii ''My Great Post'')) (JStr (ascii ''widgets'')) world0)
     = Inr (JStr (ascii ''My Great Post''))
   \<and> update_post_title (env_of no_http no_gemini)
          (JStr (ascii ''My Widgets'')) (JStr (ascii ''widgets'')) world0
     = (Inr (JStr (ascii ''My Widgets'')), world0)"
proof -
  let ?good = "env_of no_http (\<lambda>p. Inr (ascii ''My Great Widgets Post''))"
  let ?bad = "env_of no_http (\<lambda>p. Inr (ascii ''Something else''))"
  let ?none = "env_of no_http no_gemini"
  have absent: "\<not> str_in (lower ?good (ascii ''widgets'')) (lower ?good (ascii ''My Great Post''))"
    "\<not> str_in (lower ?bad (ascii ''widgets'')) (lower ?bad (ascii ''My Great Post''))"
    by (simp_all add: env_of_def str_eval)
  have h1: "gemini ?good (prompts world0)
              (TitlePrompt (JStr (ascii ''widgets'')) (JStr (ascii ''My Great Post'')))
            = Inr (ascii ''My Great Widgets Post'')"
    by (simp add: env_of_def)
  have h2: "strip (ascii ''My Great Widgets Post'') = ascii ''My Great Widgets Post''
            \<and> str_in (lower ?good (ascii ''widgets'')) (lower ?good (ascii ''My Great Widgets Post''))"
    by (simp add: env_of_def str_eval)
  have h3: "gemini ?bad (prompts world0)
              (TitlePrompt (JStr (ascii ''widgets'')) (JStr (ascii ''My Great Post'')))
            = Inr (ascii ''Something else'')"
    by (simp add: env_of_def)
  have h4: "strip (ascii ''Something else'') = ascii ''Something else''
            \<and> \<not> str_in (lower ?bad (ascii ''widgets'')) (lower ?bad (ascii ''Something else''))"
    by (simp add: env_of_def str_eval)
  have h5: "str_in (lower ?none (ascii ''widgets'')) (lower ?none (ascii ''My Widgets''))"
    by (simp add: env_of_def str_eval)
  from update_post_title_cases [of ?good "ascii ''widgets''" "ascii ''My Great Post''" world0]
       absent(1) h1 h2
  have a: "fst (update_post_title ?good (JStr (ascii ''My Great Post'')) (JStr (ascii ''widgets''))
                  world0) = Inr (JStr (ascii ''My Great Widgets Post''))"
    by simp
  from update_post_title_cases [of ?bad "ascii ''widgets''" "ascii ''My Great Post''" world0]
       absent(2) h3 h4
  have b: "fst (update_post_title ?bad (JStr (ascii ''My Great Post'')) (JStr (ascii ''widgets''))
                  world0) = Inr (JStr (ascii ''My Great Post''))"
    by simp
  from update_post_title_cases [of ?none "ascii ''widgets''" "ascii ''My Widgets''" world0] h5
  have c: "update_post_title ?none (JStr (ascii ''My Widgets'')) (JStr (ascii ''widgets'')) world0
           = (Inr (JStr (ascii ''My Widgets'')), world0)"
    by blast
  from a b c show ?thesis by blast
qed

subsection \<open>Writing the keyword\<close>

text \<open>
  C10. When \<open>get_rank_math_data\<close> reads a dict for the post, \<open>update_rank_math_keyword\<close>
  issues that read and then one write; the dict it serialises into the write maps
  \<open>focus_keyword\<close> to the given keyword and every other key to what the dict read had
  for it.
\<close>
theorem update_rank_math_keyword_frame:
  assumes "get_rank_math_data env post_id w = (Inr (JObj bag), w1)"
  shows "\<exists>bag'. requests (snd (update_rank_math_keyword env post_id keyword w))
                 = requests w @ [GetPost post_id, PostPost post_id
                     \<lparr>ud_title = None, ud_content = None, ud_meta = Some (JObj bag')\<rparr>]
           \<and> map_of bag' (ascii ''focus_keyword'') = Some keyword
           \<and> (\<forall>k. k \<noteq> ascii ''focus_keyword'' \<longrightarrow> map_of bag' k = map_of bag k)"
proof -
  from assms have w1: "requests w1 = requests w @ [GetPost post_id]"
    by (auto simp: get_rank_math_data_def comp_defs http_request_def
          split: sum.splits if_splits)
  let ?bag = "AList.update (ascii ''focus_keyword'') keyword bag"
  from assms w1
  have "requests (snd (update_rank_math_keyword env post_id keyword w))
        = requests w @ [GetPost post_id, PostPost post_id
            \<lparr>ud_title = None, ud_content = None, ud_meta = Some (JObj ?bag)\<rparr>]"
    by (auto simp: update_rank_math_keyword_def comp_defs http_request_def split: sum.splits)
  moreover have "map_of ?bag (ascii ''focus_keyword'') = Some keyword"
    by (simp add: update_conv')
  moreover have "\<forall>k. k \<noteq> ascii ''focus_keyword'' \<longrightarrow> map_of ?bag k = map_of bag k"
    by (simp add: update_conv')
  ultimately show ?thesis by blast
qed

theorem update_rank_math_keyword_frame_witness:
  "\<exists>bag'. requests (snd (update_rank_math_keyword (env_of bag_http no_gemini) (JNum 7)
                           (JStr (ascii ''wordpress seo'')) world0))
           = [GetPost (JNum 7), PostPost (JNum 7)
                \<lparr>ud_title = None, ud_content = None, ud_meta = Some (JObj bag')\<rparr>]
     \<and> map_of bag' (ascii ''focus_keyword'') = Some (JStr (ascii ''wordpress seo''))
     \<and> map_of bag' (ascii ''description'') = Some (JStr (ascii ''learn seo tips today''))"
proof -
  let ?env = "env_of bag_http no_gemini"
  have h: "get_rank_math_data ?env (JNum 7) world0
           = (Inr (JObj [(ascii ''description'', JStr (ascii ''learn seo tips today'')),
                         (ascii ''focus_keyword'', JStr (ascii ''seo tips''))]),
              world0\<lparr>requests := [GetPost (JNum 7)]\<rparr>)"
    by (simp add: get_rank_math_data_def rank_math_of_def comp_defs http_request_def
          env_of_def bag_http_def reply_def world0_def str_eval)
  have ne: "ascii ''description'' \<noteq> ascii ''focus_keyword''"
    by (simp add: str_eval)
  from update_rank_math_keyword_frame [OF h, of "JStr (ascii ''wordpress seo'')"] ne
  show ?thesis by (auto simp: world0_def)
qed

subsection \<open>Fetching the posts\<close>

text \<open>
  One iteration of the loop, from any state of it: an answer other than 200 ends it with
  the posts gathered before, a 200 answer with a list of fewer than 100 posts ends it
  with that list appended, and a 200 answer with a list of 100 posts or more goes on
  with the next page.
\<close>
lemma fetch_pages_step:
  "(\<forall>r. http env (requests w) (GetPosts 100 page) = Inr r \<and> status_code r \<noteq> 200 \<longrightarrow>
        fetch_pages env posts page w
        = Some (Inr posts, w\<lparr>requests := requests w @ [GetPosts 100 page]\<rparr>))
   \<and> (\<forall>r batch. http env (requests w) (GetPosts 100 page) = Inr r \<and> status_code r = 200
                 \<and> body_json r = Inr (JArr batch) \<and> length batch < 100 \<longrightarrow>
        fetch_pages env posts page w
        = Some (Inr (posts @ batch), w\<lparr>requests := requests w @ [GetPosts 100 page]\<rparr>))
   \<and> (\<forall>r batch. http env (requests w) (GetPosts 100 page) = Inr r \<and> status_code r = 200
                 \<and> body_json r = Inr (JArr batch) \<and> 100 \<le> length batch \<longrightarrow>
        fetch_pages env posts page w
        = fetch_pages env (posts @ batch) (page + 1)
            (w\<lparr>requests := requests w @ [GetPosts 100 page]\<rparr>))"
  by (subst fetch_pages.simps, subst fetch_pages.simps, subst fetch_pages.simps)
     (auto simp: http_request_def per_page_def)

lemma fetch_pages_full_pages:
  assumes "\<forall>i<k. \<exists>r. http env (requests w @ map (\<lambda>j. GetPosts 100 (page + int j)) [0..<i])
                          (GetPosts 100 (page + int i)) = Inr r
                      \<and> status_code r = 200 \<and> body_json r = Inr (JArr (batch i))
                      \<and> 100 \<le> length (batch i)"
  shows "fetch_pages env posts page w
         = fetch_pages env (posts @ concat (map batch [0..<k])) (page + int k)
             (w\<lparr>requests := requests w @ map (\<lambda>j. GetPosts 100 (page + int j)) [0..<k]\<rparr>)"
  using assms
proof (induction k)
  case 0
  then show ?case by simp
next
  case (Suc k)
  let ?w = "w\<lparr>requests := requests w @ map (\<lambda>j. GetPosts 100 (page + int j)) [0..<k]\<rparr>"
  from Suc.prems obtain r where
    r: "http env (requests ?w) (GetPosts 100 (page + int k)) = Inr r"
       "status_code r = 200" "body_json r = Inr (JArr (batch k))" "100 \<le> length (batch k)"
    by auto
  from Suc have "fetch_pages env posts page w
                 = fetch_pages env (posts @ concat (map batch [0..<k])) (page + int k) ?w"
    by simp
  also from r have "\<dots> = fetch_pages env ((posts @ concat (map batch [0..<k])) @ batch k)
                          (page + int k + 1) (?w\<lparr>requests := requests ?w @ [GetPosts 100 (page + int k)]\<rparr>)"
    using fetch_pages_step [of env ?w "page + int k" "posts @ concat (map batch [0..<k])"]
    by blast
  finally show ?case
    by (simp add: ac_simps)
qed


text \<open>
  C7. Every request of \<open>get_all_published_posts\<close> asks for a page of 100 posts. After
  \<open>k\<close> full pages (200 answers with lists of at least 100 posts), an answer other than
  200 to the next request makes it return, without raising, exactly the posts of those
  \<open>k\<close> pages; a 200 answer with a list of fewer than 100 posts (the empty list too) makes
  it return those posts followed by that list. In both cases the request for page
  \<open>k + 1\<close> is the last one it makes.
\<close>
theorem get_all_published_posts_stops:
  assumes "\<forall>i<k. \<exists>r. http env (requests w @ map (\<lambda>j. GetPosts 100 (1 + int j)) [0..<i])
                          (GetPosts 100 (1 + int i)) = Inr r
                      \<and> status_code r = 200 \<and> body_json r = Inr (JArr (batch i))
                      \<and> 100 \<le> length (batch i)"
    and "http env (requests w @ map (\<lambda>j. GetPosts 100 (1 + int j)) [0..<k])
           (GetPosts 100 (1 + int k)) = Inr r"
  shows "(status_code r \<noteq> 200 \<longrightarrow>
            get_all_published_posts env w
            = Some (Inr (concat (map batch [0..<k])),
                    w\<lparr>requests := requests w @ map (\<lambda>j. GetPosts 100 (1 + int j)) [0..<Suc k]\<rparr>))
       \<and> (\<forall>short. status_code r = 200 \<and> body_json r = Inr (JArr short) \<and> length short < 100 \<longrightarrow>
            get_all_published_posts env w
            = Some (Inr (concat (map batch [0..<k]) @ short),
                    w\<lparr>requests := requests w @ map (\<lambda>j. GetPosts 100 (1 + int j)) [0..<Suc k]\<rparr>))"
proof -
  let ?w = "w\<lparr>requests := requests w @ map (\<lambda>j. GetPosts 100 (1 + int j)) [0..<k]\<rparr>"
  let ?posts = "concat (map batch [0..<k])"
  have run: "get_all_published_posts env w = fetch_pages env ?posts (1 + int k) ?w"
    using fetch_pages_full_pages [OF assms(1), of "[]"]
    by (simp add: get_all_published_posts_def)
  from assms(2) have last: "http env (requests ?w) (GetPosts 100 (1 + int k)) = Inr r"
    by simp
  have log: "?w\<lparr>requests := requests ?w @ [GetPosts 100 (1 + int k)]\<rparr>
             = w\<lparr>requests := requests w @ map (\<lambda>j. GetPosts 100 (1 + int j)) [0..<Suc k]\<rparr>"
    by simp
  show ?thesis
    using fetch_pages_step [of env ?w "1 + int k" ?posts] last
    unfolding run log [symmetric] by blast
qed

theorem get_all_published_posts_stops_witness:
  "get_all_published_posts (env_of (\<lambda>r. Inr (reply 503 JNull)) no_gemini) world0
     = Some (Inr [], world0\<lparr>requests := [GetPosts 100 1]\<rparr>)
   \<and> get_all_published_posts paged_env world0
     = Some (Inr (replicate 100 (JObj [(ascii ''id'', JNum 1)]) @ two_posts),
             world0\<lparr>requests := [GetPosts 100 1, GetPosts 100 2]\<rparr>)"
proof -
  let ?down = "env_of (\<lambda>r. Inr (reply 503 JNull)) no_gemini"
  let ?full = "replicate 100 (JObj [(ascii ''id'', JNum 1)])"
  have h0: "\<forall>i<0. \<exists>r. http ?down (requests world0 @ map (\<lambda>j. GetPosts 100 (1 + int j)) [0..<i])
                          (GetPosts 100 (1 + int i)) = Inr r
                      \<and> status_code r = 200 \<and> body_json r = Inr (JArr ((\<lambda>i. []) i))
                      \<and> 100 \<le> length ((\<lambda>i. []) i :: json list)"
    by simp
  have h1: "http ?down (requests world0 @ map (\<lambda>j. GetPosts 100 (1 + int j)) [0..<0])
              (GetPosts 100 (1 + int 0)) = Inr (reply 503 JNull)"
    by (simp add: env_of_def)
  have a: "get_all_published_posts ?down world0
           = Some (Inr [], world0\<lparr>requests := [GetPosts 100 1]\<rparr>)"
    using get_all_published_posts_stops [OF h0 h1]
    by (simp add: reply_def world0_def)
  have h2: "\<forall>i<1. \<exists>r. http paged_env (requests world0 @ map (\<lambda>j. GetPosts 100 (1 + int j)) [0..<i])
                          (GetPosts 100 (1 + int i)) = Inr r
                      \<and> status_code r = 200 \<and> body_json r = Inr (JArr ((\<lambda>i. ?full) i))
                      \<and> 100 \<le> length ((\<lambda>i. ?full) i)"
    by (simp add: paged_env_def reply_def world0_def)
  have h3: "http paged_env (requests world0 @ map (\<lambda>j. GetPosts 100 (1 + int j)) [0..<1])
              (GetPosts 100 (1 + int 1)) = Inr (reply 200 (JArr two_posts))"
    by (simp add: paged_env_def)
  have b: "get_all_published_posts paged_env world0
           = Some (Inr (?full @ two_posts), world0\<lparr>requests := [GetPosts 100 1, GetPosts 100 2]\<rparr>)"
    using get_all_published_posts_stops [OF h2 h3]
    by (simp add: reply_def world0_def two_posts_def)
  from a b show ?thesis by blast
qed

subsection \<open>The steps of \<open>process_post\<close>\<close>



text \<open>
  C2. With an existing description and an existing keyword, both strings, the description
  step leaves everything as it is when the keyword as written occurs in the lower-cased
  description. Otherwise it logs that the keyword is missing and asks the backend for a
  new description: the answer, trimmed and cut to 160 characters, becomes the meta
  description, and when it is not empty it is logged and \<open>meta_description_added\<close> is
  set; when the call raises the meta description becomes \<open>None\<close>. Only the description
  is lower-cased, so a keyword with a character that no lower-cased string contains
  never occurs in it, and the description is asked for again.
\<close>
theorem description_regenerated_iff:
  fixes keyword description content :: str
  shows "(str_in keyword (lower env description) \<longrightarrow>
            description_step env post_id (JStr content) (JStr description) True
              (JStr keyword) True (entry, w)
            = (Inr (JStr description), (entry, w)))
       \<and> (\<not> str_in keyword (lower env description) \<longrightarrow>
            (let asked = DescriptionPrompt (take 1500 (unescape env (strip_tags content)))
                           (if keyword = [] then JStr (ascii ''[generate appropriate keyword]'')
                            else JStr keyword);
                 missing = (post_id, DescriptionLacksKeyword (JStr keyword))
             in (\<forall>e. gemini env (prompts w) asked = Inl e \<longrightarrow>
                   description_step env post_id (JStr content) (JStr description) True
                     (JStr keyword) True (entry, w)
                   = (Inr JNull,
                      (entry, w\<lparr>prompts := prompts w @ [asked],
                                 log_data := log_data w @ [missing]\<rparr>)))
              \<and> (\<forall>text. gemini env (prompts w) asked = Inr text \<longrightarrow>
                   (let d = (if 160 < length (strip text)
                             then take 157 (strip text) @ ascii ''...'' else strip text)
                    in description_step env post_id (JStr content) (JStr description) True
                         (JStr keyword) True (entry, w)
                       = (Inr (JStr d),
                          (if d = [] then entry else entry\<lparr>r_meta_description_added := True\<rparr>,
                           w\<lparr>prompts := prompts w @ [asked],
                             log_data := log_data w @ missing #
                               (if d = [] then [] else [(post_id, UpdatedDescription (JStr d))])\<rparr>))))))
       \<and> ((\<exists>c \<in> set keyword. \<forall>s. c \<notin> set (lower env s)) \<longrightarrow>
            \<not> str_in keyword (lower env description))"
proof (intro conjI impI)
  assume "str_in keyword (lower env description)"
  then show "description_step env post_id (JStr content) (JStr description) True
              (JStr keyword) True (entry, w) = (Inr (JStr description), (entry, w))"
    by (simp add: description_step_def keyword_not_in_description_def comp_defs)
next
  assume "\<not> str_in keyword (lower env description)"
  then show "let asked = DescriptionPrompt (take 1500 (unescape env (strip_tags content)))
                           (if keyword = [] then JStr (ascii ''[generate appropriate keyword]'')
                            else JStr keyword);
                 missing = (post_id, DescriptionLacksKeyword (JStr keyword))
             in (\<forall>e. gemini env (prompts w) asked = Inl e \<longrightarrow>
                   description_step env post_id (JStr content) (JStr description) True
                     (JStr keyword) True (entry, w)
                   = (Inr JNull,
                      (entry, w\<lparr>prompts := prompts w @ [asked],
                                 log_data := log_data w @ [missing]\<rparr>)))
              \<and> (\<forall>text. gemini env (prompts w) asked = Inr text \<longrightarrow>
                   (let d = (if 160 < length (strip text)
                             then take 157 (strip text) @ ascii ''...'' else strip text)
                    in description_step env post_id (JStr content) (JStr description) True
                         (JStr keyword) True (entry, w)
                       = (Inr (JStr d),
                          (if d = [] then entry else entry\<lparr>r_meta_description_added := True\<rparr>,
                           w\<lparr>prompts := prompts w @ [asked],
                             log_data := log_data w @ missing #
                               (if d = [] then [] else [(post_id, UpdatedDescription (JStr d))])\<rparr>))))"
    by (auto simp: description_step_def keyword_not_in_description_def comp_defs describe_def
          in_world_def log_def set_entry_def generate_meta_description_def sample_content_def
          generate_content_def slice_to_def Let_def ascii_def)
next
  assume "\<exists>c \<in> set keyword. \<forall>s. c \<notin> set (lower env s)"
  then show "\<not> str_in keyword (lower env description)"
    using str_in_subset by blast
qed

theorem description_regenerated_iff_witness:
  "description_step (env_of no_http (\<lambda>p. Inr (ascii '' Fresh SEO tips '')))
     (JNum 7) (JStr (ascii ''<p>x</p>'')) (JStr (ascii ''Learn SEO tips today'')) True
     (JStr (ascii ''SEO tips'')) True
     (new_entry (JNum 7) (JStr (ascii ''s'')) (JStr (ascii ''t'')), world0)
     = (Inr (JStr (ascii ''Fresh SEO tips'')),
        ((new_entry (JNum 7) (JStr (ascii ''s'')) (JStr (ascii ''t'')))
           \<lparr>r_meta_description_added := True\<rparr>,
         world0\<lparr>prompts := [DescriptionPrompt (ascii ''x'') (JStr (ascii ''SEO tips''))],
                log_data := [(JNum 7, DescriptionLacksKeyword (JStr (ascii ''SEO tips''))),
                             (JNum 7, UpdatedDescription (JStr (ascii ''Fresh SEO tips'')))]\<rparr>))
   \<and> description_step (env_of no_http no_gemini) (JNum 7) (JStr (ascii ''<p>x</p>''))
        (JStr (ascii ''Learn SEO tips today'')) True (JStr (ascii ''seo tips'')) True
        (new_entry (JNum 7) (JStr (ascii ''s'')) (JStr (ascii ''t'')), world0)
     = (Inr (JStr (ascii ''Learn SEO tips today'')),
        (new_entry (JNum 7) (JStr (ascii ''s'')) (JStr (ascii ''t'')), world0))"
proof -
  let ?env = "env_of no_http (\<lambda>p. Inr (ascii '' Fresh SEO tips ''))"
  let ?idle = "env_of no_http no_gemini"
  let ?entry = "new_entry (JNum 7) (JStr (ascii ''s'')) (JStr (ascii ''t''))"
  let ?asked = "DescriptionPrompt (take 1500 (unescape ?env (strip_tags (ascii ''<p>x</p>''))))
                  (if ascii ''SEO tips'' = [] then JStr (ascii ''[generate appropriate keyword]'')
                   else JStr (ascii ''SEO tips''))"
  have "83 \<in> set (ascii ''SEO tips'')"
    by (simp add: str_eval)
  moreover have "\<forall>s. 83 \<notin> set (lower ?env s)"
    by (simp add: env_of_def fold_ascii_no_upper)
  ultimately have h1: "\<exists>c \<in> set (ascii ''SEO tips''). \<forall>s. c \<notin> set (lower ?env s)"
    by blast
  have h2: "gemini ?env (prompts world0) ?asked = Inr (ascii '' Fresh SEO tips '')"
    by (simp add: env_of_def)
  have h3: "str_in (ascii ''seo tips'') (lower ?idle (ascii ''Learn SEO tips today''))"
    by (simp add: env_of_def str_eval)
  have e1: "?asked = DescriptionPrompt (ascii ''x'') (JStr (ascii ''SEO tips''))"
    by (simp add: env_of_def str_eval)
  have e2: "strip (ascii '' Fresh SEO tips '') = ascii ''Fresh SEO tips''"
    by (simp add: str_eval)
  have e3: "\<not> 160 < length (ascii ''Fresh SEO tips'') \<and> ascii ''Fresh SEO tips'' \<noteq> []"
    by (simp add: str_eval)
  note inst = description_regenerated_iff
               [of "ascii ''SEO tips''" ?env "ascii ''Learn SEO tips today''" "JNum 7"
                   "ascii ''<p>x</p>''" ?entry world0]
  from inst h1 have absent: "\<not> str_in (ascii ''SEO tips'') (lower ?env (ascii ''Learn SEO tips today''))"
    by blast
  from inst absent h2
  have "let d = (if 160 < length (strip (ascii '' Fresh SEO tips ''))
                 then take 157 (strip (ascii '' Fresh SEO tips '')) @ ascii ''...''
                 else strip (ascii '' Fresh SEO tips ''))
        in description_step ?env (JNum 7) (JStr (ascii ''<p>x</p>''))
             (JStr (ascii ''Learn SEO tips today'')) True (JStr (ascii ''SEO tips'')) True
             (?entry, world0)
           = (Inr (JStr d),
              (if d = [] then ?entry else ?entry\<lparr>r_meta_description_added := True\<rparr>,
               world0\<lparr>prompts := prompts world0 @ [?asked],
                      log_data := log_data world0
                        @ (JNum 7, DescriptionLacksKeyword (JStr (ascii ''SEO tips'')))
                        # (if d = [] then [] else [(JNum 7, UpdatedDescription (JStr d))])\<rparr>))"
    unfolding Let_def by blast
  with e1 e2 e3
  have a: "description_step ?env (JNum 7) (JStr (ascii ''<p>x</p>''))
             (JStr (ascii ''Learn SEO tips today'')) True (JStr (ascii ''SEO tips'')) True
             (?entry, world0)
           = (Inr (JStr (ascii ''Fresh SEO tips'')),
              (?entry\<lparr>r_meta_description_added := True\<rparr>,
               world0\<lparr>prompts := [DescriptionPrompt (ascii ''x'') (JStr (ascii ''SEO tips''))],
                      log_data := [(JNum 7, DescriptionLacksKeyword (JStr (ascii ''SEO tips''))),
                                   (JNum 7, UpdatedDescription (JStr (ascii ''Fresh SEO tips'')))]\<rparr>))"
    by (simp add: Let_def world0_def)
  from description_regenerated_iff
         [of "ascii ''seo tips''" ?idle "ascii ''Learn SEO tips today''" "JNum 7"
             "ascii ''<p>x</p>''" ?entry world0] h3
  have b: "description_step ?idle (JNum 7) (JStr (ascii ''<p>x</p>''))
             (JStr (ascii ''Learn SEO tips today'')) True (JStr (ascii ''seo tips'')) True
             (?entry, world0)
           = (Inr (JStr (ascii ''Learn SEO tips today'')), (?entry, world0))"
    by blast
  from a b show ?thesis by blast
qed

text \<open>
  U+1D400, mathematical bold capital A, is an upper-case letter that \<open>str.lower\<close> leaves
  as it is. A keyword made of it occurs in the lower-cased description that contains it,
  and the description is kept: nothing is logged and nothing is asked.
\<close>
theorem description_kept_counterexample:
  "description_step (env_of no_http no_gemini) (JNum 7) (JStr (ascii ''<p>x</p>''))
     (JStr (ascii ''Maths '' @ [119808] @ ascii '' notes'')) True (JStr [119808]) True
     (new_entry (JNum 7) (JStr (ascii ''s'')) (JStr (ascii ''t'')), world0)
   = (Inr (JStr (ascii ''Maths '' @ [119808] @ ascii '' notes'')),
      (new_entry (JNum 7) (JStr (ascii ''s'')) (JStr (ascii ''t'')), world0))"
  by (simp add: description_step_def keyword_not_in_description_def comp_defs env_of_def
        str_eval)

subsection \<open>\<open>process_post\<close> as a whole\<close>

text \<open>
  A post whose existing description and keyword, both strings, pass every presence check
  of \<open>process_post\<close> is written all the same: nothing is asked of the backend, and one
  write is issued whose \<open>meta\<close> carries the Rank Math dict with the existing description
  put into it. The test before the write is \<open>if meta_description\<close>, which an existing
  description passes as a new one does.
\<close>
lemma process_post_writes_existing_description:
  assumes "post_fields post = Inr (post_id, JStr title, JStr content, slug)"
    and "get_rank_math_data env post_id w = (Inr (JObj bag), w1)"
    and "existing_seo post (JObj bag) = Inr (JStr d, True, JStr k, True)"
    and "d \<noteq> []"
    and "str_in k (lower env d)"
    and "str_in (lower env k) (lower env title)"
    and "str_in (lower env k) (lower env content)"
  shows "requests (snd (process_post env post w))
         = requests w1 @ [PostPost post_id
             \<lparr>ud_title = None, ud_content = None,
              ud_meta = Some (JObj (AList.update (ascii ''description'') (JStr d) bag))\<rparr>]
       \<and> prompts (snd (process_post env post w)) = prompts w1"
proof -
  from assms(3) obtain yoast where
    y: "yoast_description post = Inr yoast"
       "rank_math_seo yoast (JObj bag) = Inr (JStr d, True, JStr k, True)"
    by (auto simp: existing_seo_def bindE_def split: sum.splits)
  from y(2) have bag: "bag \<noteq> []"
    by (auto simp: rank_math_seo_def bindE_def split: sum.splits prod.splits)
  let ?u = "\<lparr>ud_title = None, ud_content = None,
             ud_meta = Some (JObj (AList.update (ascii ''description'') (JStr d) bag))\<rparr>"
  let ?entry = "new_entry post_id slug (JStr title)"
  have k: "keyword_step env post_id (JStr title) (JStr content) (JStr k) True (?entry, w1)
           = (Inr (JStr k, True), (?entry, w1))"
    by (simp add: keyword_step_def returnM_def)
  have d: "description_step env post_id (JStr content) (JStr d) True (JStr k) True (?entry, w1)
           = (Inr (JStr d), (?entry, w1))"
    using assms(5) by (simp add: description_step_def keyword_not_in_description_def comp_defs)
  have t: "title_step env post_id (JStr title) (JStr k) True (?entry, w1) = (Inr (), (?entry, w1))"
    using assms(6) by (simp add: title_step_def lower_not_in_lower_def comp_defs)
  have p: "prepare_update env post_id (JStr content) (JStr k) True (JStr d) (JObj bag) (?entry, w1)
           = (Inr ?u, (?entry, w1))"
    using assms(4,7) bag
    by (simp add: prepare_update_def lower_not_in_lower_def comp_defs get_entry_def new_entry_def
          no_updates_def)
  have s: "requests (snd (submit_update env post_id ?u w1)) = requests w1 @ [PostPost post_id ?u]
           \<and> prompts (snd (submit_update env post_id ?u w1)) = prompts w1"
    by (auto simp: submit_update_def comp_defs http_request_def log_def no_updates_def
          split: sum.splits)
  obtain r w2 where sub: "submit_update env post_id ?u w1 = (r, w2)"
    by (cases "submit_update env post_id ?u w1")
  have r: "r = Inr ()"
    using sub by (auto simp: submit_update_def comp_defs http_request_def log_def no_updates_def
          split: sum.splits if_splits)
  have "process_post_try env post post_id (JStr title) (JStr content) (?entry, w)
        = (Inr ?u, (?entry, w2\<lparr>report_data := report_data w2 @ [?entry]\<rparr>))"
    using assms(2) y k d t p sub r
    by (simp add: process_post_try_def bindM_def liftM_def returnM_def in_world_def get_entry_def)
  with assms(1) s sub show ?thesis
    by (simp add: process_post_def bindM_def liftM_def)
qed

text \<open>
  C1. The post \<open>satisfied_post\<close> on the site \<open>bag_http\<close> has a description and a keyword
  that pass every presence check: the keyword is in the lower-cased description, and, case
  ignored, in the title and in the body. Processing it asks nothing of the backend and
  reports nothing added, and yet issues a write whose \<open>meta\<close> is the dict just read: the
  update payload is not empty.
\<close>
theorem process_post_rewrites_satisfied_post:
  "existing_seo satisfied_post
     (JObj [(ascii ''description'', JStr (ascii ''learn seo tips today'')),
            (ascii ''focus_keyword'', JStr (ascii ''seo tips''))])
   = Inr (JStr (ascii ''learn seo tips today''), True, JStr (ascii ''seo tips''), True)
   \<and> str_in (ascii ''seo tips'')
        (lower (env_of bag_http no_gemini) (ascii ''learn seo tips today''))
   \<and> str_in (lower (env_of bag_http no_gemini) (ascii ''seo tips''))
        (lower (env_of bag_http no_gemini) (ascii ''SEO Tips for Beginners''))
   \<and> str_in (lower (env_of bag_http no_gemini) (ascii ''seo tips''))
        (lower (env_of bag_http no_gemini) (ascii ''<p>These seo tips help.</p>''))
   \<and> process_post (env_of bag_http no_gemini) satisfied_post world0
     = (Inr (new_entry (JNum 7) (JStr (ascii ''seo-tips'')) (JStr (ascii ''SEO Tips for Beginners''))),
        \<lparr>requests =
           [GetPost (JNum 7),
            PostPost (JNum 7)
              \<lparr>ud_title = None, ud_content = None,
               ud_meta = Some (JObj [(ascii ''description'', JStr (ascii ''learn seo tips today'')),
                                     (ascii ''focus_keyword'', JStr (ascii ''seo tips''))])\<rparr>],
         prompts = [],
         log_data = [(JNum 7, SuccessfullyUpdated)],
         report_data =
           [new_entry (JNum 7) (JStr (ascii ''seo-tips'')) (JStr (ascii ''SEO Tips for Beginners''))]\<rparr>)"
  by (simp add: step_defs existing_seo_def comp_defs str_eval satisfied_post_def env_of_def
        bag_http_def reply_def world0_def)

lemma process_post_returns:
  assumes "post_fields post = Inr (post_id, post_title, post_content, post_slug)"
  shows "\<exists>entry w'. process_post env post w = (Inr entry, w')"
  using assms
  by (auto simp: process_post_def comp_defs split: prod.splits sum.splits)

lemma process_post_logs:
  assumes "post_fields post = Inr (post_id, post_title, post_content, post_slug)"
    and "process_post_try env post post_id post_title post_content
           (new_entry post_id post_slug post_title, w) = (Inl e, (entry, w1))"
  shows "process_post env post w
         = (Inr entry, w1\<lparr>log_data := log_data w1 @ [(post_id, ErrorProcessing e)]\<rparr>)"
  using assms
  by (simp add: process_post_def comp_defs log_def)

lemma process_posts_complete:
  "\<forall>post \<in> set posts. \<exists>f. post_fields post = Inr f \<Longrightarrow> fst (process_posts env posts w) = Inr ()"
proof (induction posts arbitrary: w)
  case Nil
  then show ?case by (simp add: returnM_def)
next
  case (Cons post posts)
  then obtain post_id post_title post_content post_slug
    where f: "post_fields post = Inr (post_id, post_title, post_content, post_slug)"
    by auto
  then have id: "getitem post (ascii ''id'') = Inr post_id"
    by (auto simp: post_fields_def bindE_def split: sum.splits)
  from process_post_returns [OF f] obtain entry w'
    where "process_post env post w = (Inr entry, w')" by blast
  with id Cons show ?case
    by (simp add: comp_defs)
qed

text \<open>
  C8. For posts that carry \<open>id\<close>, \<open>title.rendered\<close>, \<open>content.rendered\<close> and \<open>slug\<close>:
  \<open>process_post\<close> always returns a report entry, whatever the services answer; when a
  step inside its \<open>try\<close> raises, it returns the entry as it stood at the raise and the
  world as it stood there with one more log line, the error against the post's id. So
  the loop of \<open>run\<close> over such posts reaches its end.
\<close>
theorem process_post_catches:
  assumes "\<forall>post \<in> set posts. \<exists>f. post_fields post = Inr f"
  shows "fst (process_posts env posts w) = Inr ()
       \<and> (\<forall>post \<in> set posts. \<forall>w0.
             (\<exists>entry w'. process_post env post w0 = (Inr entry, w'))
           \<and> (\<forall>post_id post_title post_content post_slug e entry w1.
                 post_fields post = Inr (post_id, post_title, post_content, post_slug)
               \<and> process_post_try env post post_id post_title post_content
                    (new_entry post_id post_slug post_title, w0) = (Inl e, (entry, w1))
               \<longrightarrow> process_post env post w0
                   = (Inr entry, w1\<lparr>log_data := log_data w1 @ [(post_id, ErrorProcessing e)]\<rparr>)))"
proof (intro conjI ballI allI impI)
  from assms show "fst (process_posts env posts w) = Inr ()"
    by (rule process_posts_complete)
next
  fix post w0
  assume "post \<in> set posts"
  with assms obtain post_id post_title post_content post_slug
    where "post_fields post = Inr (post_id, post_title, post_content, post_slug)"
    by (metis prod_cases4)
  then show "\<exists>entry w'. process_post env post w0 = (Inr entry, w')"
    by (rule process_post_returns)
next
  fix post w0 post_id post_title post_content post_slug e entry w1
  assume "post_fields post = Inr (post_id, post_title, post_content, post_slug)
          \<and> process_post_try env post post_id post_title post_content
               (new_entry post_id post_slug post_title, w0) = (Inl e, (entry, w1))"
  then show "process_post env post w0
             = (Inr entry, w1\<lparr>log_data := log_data w1 @ [(post_id, ErrorProcessing e)]\<rparr>)"
    using process_post_logs by blast
qed

theorem process_post_catches_witness:
  "fst (process_posts (env_of no_http no_gemini) [numeric_content_post] world0) = Inr ()
   \<and> process_post (env_of no_http no_gemini) numeric_content_post world0
     = (Inr (new_entry (JNum 7) (JStr (ascii ''seo-tips'')) (JStr (ascii ''SEO Tips''))),
        \<lparr>requests = [GetPost (JNum 7)], prompts = [],
         log_data = [(JNum 7, NoKeywordFound), (JNum 7, ErrorProcessing TypeError)],
         report_data = []\<rparr>)"
proof -
  let ?env = "env_of no_http no_gemini"
  let ?entry = "new_entry (JNum 7) (JStr (ascii ''seo-tips'')) (JStr (ascii ''SEO Tips''))"
  let ?w1 = "\<lparr>requests = [GetPost (JNum 7)], prompts = [],
              log_data = [(JNum 7, NoKeywordFound)], report_data = []\<rparr>"
  have h1: "post_fields numeric_content_post
            = Inr (JNum 7, JStr (ascii ''SEO Tips''), JNum 5, JStr (ascii ''seo-tips''))"
    by (simp add: post_fields_def bindE_def numeric_content_post_def str_eval)
  then have h2: "\<forall>post \<in> set [numeric_content_post]. \<exists>f. post_fields post = Inr f"
    by simp
  have h3: "process_post_try ?env numeric_content_post (JNum 7) (JStr (ascii ''SEO Tips'')) (JNum 5)
              (?entry, world0) = (Inl TypeError, (?entry, ?w1))"
    by (simp add: step_defs comp_defs numeric_content_post_def env_of_def no_http_def world0_def
          str_eval)
  from process_post_catches [OF h2, of ?env world0] h1 h3
  have "fst (process_posts ?env [numeric_content_post] world0) = Inr ()"
    and "process_post ?env numeric_content_post world0
         = (Inr ?entry, ?w1\<lparr>log_data := log_data ?w1 @ [(JNum 7, ErrorProcessing TypeError)]\<rparr>)"
    by auto
  then show ?thesis by simp
qed

text \<open>
  The four fields are read before the \<open>try\<close>: when one of the reads raises,
  \<open>process_post\<close> raises the same and leaves the world as it was. A post without a slug
  raises \<open>KeyError\<close>, and nothing is logged.
\<close>
lemma process_post_propagates:
  "post_fields post = Inl e \<Longrightarrow> process_post env post w = (Inl e, w)"
  by (simp add: process_post_def bindM_def liftM_def)

theorem process_post_propagates_counterexample:
  "process_post (env_of no_http no_gemini) no_slug_post world0 = (Inl KeyError, world0)"
  by (simp add: process_post_def post_fields_def comp_defs no_slug_post_def str_eval)

end
